theory Spec2Isabelle
  imports Main
begin

section \<open>TopSearch: the query-dispatch handlers of the \<open>App\<close> component\<close>

text \<open>
  The development embeds \<^verbatim>\<open>frontend/src/App.js\<close> (the React component \<open>App\<close> with its
  three event handlers) and the module that declares \<open>API_URL\<close> and \<open>getData\<close>.

  A JavaScript string is modelled by \<^typ>\<open>string\<close>, read as its UTF-8 encoding: the handlers
  only test strings for emptiness and concatenate them, and both commute with the encoding.
  The response body and the rejection value of the HTTP client are never inspected by the
  handlers, so the model is parametric in their types \<open>'a\<close> and \<open>'e\<close>.
\<close>

subsection \<open>JavaScript values\<close>

text \<open>A JSON document, for concrete response bodies.\<close>

datatype json =
    JNull
  | JBool bool
  | JNum int
  | JStr string
  | JArr "json list"
  | JObj "(string \<times> json) list"

text \<open>
  Truthiness of a string, as tested by \<^verbatim>\<open>if (year)\<close> and \<^verbatim>\<open>!selectedCollection\<close>:
  the empty string is the only falsy string.
\<close>

definition truthy :: "string \<Rightarrow> bool" where
  "truthy v = (v \<noteq> [])"

text \<open>
  Assignment to a property of an object, \<^verbatim>\<open>params.year = year\<close>: an existing key keeps its
  place and takes the new value, a new key is added after the others.
\<close>

fun assign :: "string \<Rightarrow> 'v \<Rightarrow> (string \<times> 'v) list \<Rightarrow> (string \<times> 'v) list" where
  "assign k v [] = [(k, v)]"
| "assign k v ((k', v') # ps) = (if k' = k then (k, v) # ps else (k', v') # assign k v ps)"

subsection \<open>View state (App.js, lines 6 to 12)\<close>

record 'a view_state =
  selectedCollection :: string
  year :: string
  startYear :: string
  endYear :: string
  queryString :: string
  articles :: 'a
  error :: string

text \<open>The defaults given to \<^verbatim>\<open>useState\<close> at mount.\<close>

definition initial_state :: "json view_state" where
  "initial_state =
     \<lparr>selectedCollection = [], year = [], startYear = [], endYear = [],
      queryString = [], articles = JArr [], error = []\<rparr>"

definition collections :: "string list" where
  "collections = [''CSCV'', ''CsAI'', ''CsCL'', ''CsLG'', ''StatML'']"

text \<open>
  A handler reads the state through the constants of the render that created it, and writes
  it only through the setters. A call of a setter is recorded as a value; React applies the
  recorded calls, in order, to the state that is current when they are made.
\<close>

datatype 'a set_state =
    SetSelectedCollection string
  | SetYear string
  | SetStartYear string
  | SetEndYear string
  | SetQueryString string
  | SetArticles 'a
  | SetError string

fun apply_set_state :: "'a set_state \<Rightarrow> 'a view_state \<Rightarrow> 'a view_state" where
  "apply_set_state (SetSelectedCollection v) t = t\<lparr>selectedCollection := v\<rparr>"
| "apply_set_state (SetYear v) t = t\<lparr>year := v\<rparr>"
| "apply_set_state (SetStartYear v) t = t\<lparr>startYear := v\<rparr>"
| "apply_set_state (SetEndYear v) t = t\<lparr>endYear := v\<rparr>"
| "apply_set_state (SetQueryString v) t = t\<lparr>queryString := v\<rparr>"
| "apply_set_state (SetArticles v) t = t\<lparr>articles := v\<rparr>"
| "apply_set_state (SetError v) t = t\<lparr>error := v\<rparr>"

definition commit :: "'a set_state list \<Rightarrow> 'a view_state \<Rightarrow> 'a view_state" where
  "commit us t = fold apply_set_state us t"

subsection \<open>The HTTP client\<close>

datatype http_method = GET | POST

record request =
  verb :: http_method
  url :: string
  params :: "(string \<times> string) list"

text \<open>
  App.js calls the \<^verbatim>\<open>axios\<close> import as it is: no instance is created and no base URL is
  set in the sources. The \<open>url\<close> of a request is the string given to \<^verbatim>\<open>axios.get\<close>,
  its \<open>params\<close> the parameter object.
\<close>

text \<open>
  How the promise of a request settles: fulfilled with a response whose \<^verbatim>\<open>data\<close> is given,
  rejected with an error (network error or a status outside 2xx), or never settled.
\<close>

datatype ('e, 'a) settled = Fulfilled 'a | Rejected 'e | Pending

text \<open>
  What running a handler does: the requests it issues, the setter calls it makes and the
  values it passes to \<^verbatim>\<open>console.error\<close>, each in order.
\<close>

record ('a, 'e) effects =
  requests :: "request list"
  updates :: "'a set_state list"
  logged :: "'e list"

subsection \<open>User-facing messages\<close>

definition e_acute :: string where
  "e_acute = [CHR 0xC3, CHR 0xA9]"

definition msg_select_collection :: string where
  "msg_select_collection = ''Veuillez s'' @ e_acute @ ''lectionner une collection.''"

definition msg_articles_failed :: string where
  "msg_articles_failed =
     ''Erreur lors de la r'' @ e_acute @ ''cup'' @ e_acute @ ''ration des articles.''"

definition msg_enter_term :: string where
  "msg_enter_term = ''Veuillez entrer un terme de recherche.''"

definition msg_similarity_failed :: string where
  "msg_similarity_failed = ''Erreur lors de la recherche par similarit'' @ e_acute @ ''.''"

subsection \<open>Criteria search (App.js, lines 17 to 40)\<close>

text \<open>Lines 25 to 29: the parameter object.\<close>

definition criteria_params :: "'a view_state \<Rightarrow> (string \<times> string) list" where
  "criteria_params s =
     (let params0 = [];
          params1 = (if truthy (year s) then assign ''year'' (year s) params0 else params0);
          params2 = (if truthy (startYear s)
                     then assign ''start_year'' (startYear s) params1 else params1);
          params3 = (if truthy (endYear s)
                     then assign ''end_year'' (endYear s) params2 else params2)
      in params3)"

text \<open>Line 32: the call of \<^verbatim>\<open>axios.get\<close>.\<close>

definition criteria_request :: "'a view_state \<Rightarrow> request" where
  "criteria_request s =
     \<lparr>verb = GET,
      url = ''/collections/'' @ selectedCollection s @ ''/articles'',
      params = criteria_params s\<rparr>"

definition handleSearch ::
  "'a view_state \<Rightarrow> (request \<Rightarrow> ('e, 'a) settled) \<Rightarrow> ('a, 'e) effects" where
  "handleSearch s http =
     (if \<not> truthy (selectedCollection s)
      then \<lparr>requests = [], updates = [SetError msg_select_collection], logged = []\<rparr>
      else
        (case http (criteria_request s) of
           Fulfilled d \<Rightarrow>
             \<lparr>requests = [criteria_request s],
              updates = [SetArticles d, SetError []],
              logged = []\<rparr>
         | Rejected e \<Rightarrow>
             \<lparr>requests = [criteria_request s],
              updates = [SetError msg_articles_failed],
              logged = [e]\<rparr>
         | Pending \<Rightarrow>
             \<lparr>requests = [criteria_request s], updates = [], logged = []\<rparr>))"

subsection \<open>Similarity search (App.js, lines 44 to 70)\<close>

definition similarity_request :: "'a view_state \<Rightarrow> request" where
  "similarity_request s =
     \<lparr>verb = GET,
      url = ''/collections/'' @ selectedCollection s @ ''/search'',
      params = [(''query_string'', queryString s)]\<rparr>"

definition handleSimilaritySearch ::
  "'a view_state \<Rightarrow> (request \<Rightarrow> ('e, 'a) settled) \<Rightarrow> ('a, 'e) effects" where
  "handleSimilaritySearch s http =
     (if \<not> truthy (selectedCollection s)
      then \<lparr>requests = [], updates = [SetError msg_select_collection], logged = []\<rparr>
      else if \<not> truthy (queryString s)
      then \<lparr>requests = [], updates = [SetError msg_enter_term], logged = []\<rparr>
      else
        (case http (similarity_request s) of
           Fulfilled d \<Rightarrow>
             \<lparr>requests = [similarity_request s],
              updates = [SetArticles d, SetError []],
              logged = []\<rparr>
         | Rejected e \<Rightarrow>
             \<lparr>requests = [similarity_request s],
              updates = [SetError msg_similarity_failed],
              logged = [e]\<rparr>
         | Pending \<Rightarrow>
             \<lparr>requests = [similarity_request s], updates = [], logged = []\<rparr>))"

subsection \<open>Selecting a collection (App.js, lines 73 to 82)\<close>

text \<open>
  The handler calls \<^verbatim>\<open>setSelectedCollection(collection)\<close> and then, when the three date
  fields are empty, \<^verbatim>\<open>handleSearch()\<close>. Both \<^verbatim>\<open>handleCollectionChange\<close> and
  \<^verbatim>\<open>handleSearch\<close> are closures of one render: \<^verbatim>\<open>selectedCollection\<close> is a
  \<^verbatim>\<open>const\<close> of that render, which the setter does not rebind. So \<open>handleSearch\<close>
  runs on the same state \<open>s\<close> that \<open>handleCollectionChange\<close> was given.
\<close>

definition handleCollectionChange ::
  "'a view_state \<Rightarrow> string \<Rightarrow> (request \<Rightarrow> ('e, 'a) settled) \<Rightarrow> ('a, 'e) effects" where
  "handleCollectionChange s collection http =
     (if \<not> truthy (year s) \<and> \<not> truthy (startYear s) \<and> \<not> truthy (endYear s)
      then
        (let r = handleSearch s http
         in r\<lparr>updates := SetSelectedCollection collection # updates r\<rparr>)
      else
        \<lparr>requests = [], updates = [SetSelectedCollection collection], logged = []\<rparr>)"

subsection \<open>The configured base URL (the module of \<open>API_URL\<close> and \<open>getData\<close>)\<close>

text \<open>
  \<^verbatim>\<open>process.env.REACT_APP_API_URL || 'http://localhost:8000'\<close>: the setting is a string or
  undefined (\<open>None\<close>); the fallback is taken when it is undefined or empty.
\<close>

definition API_URL :: "string option \<Rightarrow> string" where
  "API_URL env =
     (case env of
        None \<Rightarrow> ''http://localhost:8000''
      | Some v \<Rightarrow> if truthy v then v else ''http://localhost:8000'')"

text \<open>
  \<open>getData\<close> fetches \<^verbatim>\<open>`${API_URL}/api/data`\<close> and returns the parsed body; the model
  returns the request together with the way the promise settles.
\<close>

definition getData ::
  "string option \<Rightarrow> (request \<Rightarrow> ('e, 'a) settled) \<Rightarrow> request \<times> ('e, 'a) settled" where
  "getData env fetch =
     (let req = \<lparr>verb = GET, url = API_URL env @ ''/api/data'', params = []\<rparr>
      in (req, fetch req))"

subsection \<open>Concrete values for the examples\<close>

text \<open>The response body \<^verbatim>\<open>[{id:1,title:"A",summary:"S"}]\<close>.\<close>

definition one_article :: json where
  "one_article =
     JArr [JObj [(''id'', JNum 1), (''title'', JStr ''A''), (''summary'', JStr ''S'')]]"

text \<open>
  A state with a collection, two of the three date fields, a search term and one article
  left by an earlier search.
\<close>

definition sample_state :: "json view_state" where
  "sample_state =
     \<lparr>selectedCollection = ''CsAI'', year = ''2020'', startYear = [], endYear = ''2022'',
      queryString = ''graph networks'',
      articles = JArr [JObj [(''id'', JNum 7), (''title'', JStr ''Old'')]],
      error = []\<rparr>"

definition sample_criteria_request :: request where
  "sample_criteria_request =
     \<lparr>verb = GET, url = ''/collections/CsAI/articles'',
      params = [(''year'', ''2020''), (''end_year'', ''2022'')]\<rparr>"

definition sample_similarity_request :: request where
  "sample_similarity_request =
     \<lparr>verb = GET, url = ''/collections/CsAI/search'',
      params = [(''query_string'', ''graph networks'')]\<rparr>"

definition always_rejected :: "request \<Rightarrow> (string, json) settled" where
  "always_rejected r = Rejected ''Network Error''"

definition always_fulfilled :: "json \<Rightarrow> request \<Rightarrow> (string, json) settled" where
  "always_fulfilled body r = Fulfilled body"

section \<open>Properties\<close>

subsection \<open>Helper facts\<close>

lemma commit_Nil: "commit [] t = t"
  by (simp add: commit_def)

lemma commit_Cons: "commit (u # us) t = commit us (apply_set_state u t)"
  by (simp add: commit_def)

lemma criteria_params_filter:
  "criteria_params s =
     filter (\<lambda>(k, v). v \<noteq> [])
       [(''year'', year s), (''start_year'', startYear s), (''end_year'', endYear s)]"
  by (simp add: criteria_params_def truthy_def)

lemma messages_distinct: "msg_articles_failed \<noteq> msg_similarity_failed"
  by (simp add: msg_articles_failed_def msg_similarity_failed_def e_acute_def)

lemma handleSearch_Fulfilled:
  "truthy (selectedCollection s) \<Longrightarrow> http (criteria_request s) = Fulfilled d \<Longrightarrow>
   handleSearch s http =
     \<lparr>requests = [criteria_request s], updates = [SetArticles d, SetError []], logged = []\<rparr>"
  by (simp add: handleSearch_def)

lemma handleSearch_Rejected:
  "truthy (selectedCollection s) \<Longrightarrow> http (criteria_request s) = Rejected e \<Longrightarrow>
   handleSearch s http =
     \<lparr>requests = [criteria_request s], updates = [SetError msg_articles_failed],
      logged = [e]\<rparr>"
  by (simp add: handleSearch_def)

lemma handleSearch_Pending:
  "truthy (selectedCollection s) \<Longrightarrow> http (criteria_request s) = Pending \<Longrightarrow>
   handleSearch s http = \<lparr>requests = [criteria_request s], updates = [], logged = []\<rparr>"
  by (simp add: handleSearch_def)

lemma handleSearch_falsy:
  "\<not> truthy (selectedCollection s) \<Longrightarrow>
   handleSearch s http =
     \<lparr>requests = [], updates = [SetError msg_select_collection], logged = []\<rparr>"
  by (simp add: handleSearch_def)

lemma handleSimilaritySearch_Fulfilled:
  "truthy (selectedCollection s) \<Longrightarrow> truthy (queryString s) \<Longrightarrow>
   http (similarity_request s) = Fulfilled d \<Longrightarrow>
   handleSimilaritySearch s http =
     \<lparr>requests = [similarity_request s], updates = [SetArticles d, SetError []],
      logged = []\<rparr>"
  by (simp add: handleSimilaritySearch_def)

lemma handleSimilaritySearch_Rejected:
  "truthy (selectedCollection s) \<Longrightarrow> truthy (queryString s) \<Longrightarrow>
   http (similarity_request s) = Rejected e \<Longrightarrow>
   handleSimilaritySearch s http =
     \<lparr>requests = [similarity_request s], updates = [SetError msg_similarity_failed],
      logged = [e]\<rparr>"
  by (simp add: handleSimilaritySearch_def)

lemma handleSimilaritySearch_Pending:
  "truthy (selectedCollection s) \<Longrightarrow> truthy (queryString s) \<Longrightarrow>
   http (similarity_request s) = Pending \<Longrightarrow>
   handleSimilaritySearch s http =
     \<lparr>requests = [similarity_request s], updates = [], logged = []\<rparr>"
  by (simp add: handleSimilaritySearch_def)

lemma handleSimilaritySearch_no_collection:
  "\<not> truthy (selectedCollection s) \<Longrightarrow>
   handleSimilaritySearch s http =
     \<lparr>requests = [], updates = [SetError msg_select_collection], logged = []\<rparr>"
  by (simp add: handleSimilaritySearch_def)

lemma handleSimilaritySearch_no_term:
  "truthy (selectedCollection s) \<Longrightarrow> \<not> truthy (queryString s) \<Longrightarrow>
   handleSimilaritySearch s http =
     \<lparr>requests = [], updates = [SetError msg_enter_term], logged = []\<rparr>"
  by (simp add: handleSimilaritySearch_def)

lemma handleSearch_requests:
  "requests (handleSearch s http) =
     (if truthy (selectedCollection s) then [criteria_request s] else [])"
  by (cases "http (criteria_request s)") (simp_all add: handleSearch_def)

lemma handleSimilaritySearch_requests:
  "requests (handleSimilaritySearch s http) =
     (if truthy (selectedCollection s) \<and> truthy (queryString s)
      then [similarity_request s] else [])"
  by (cases "http (similarity_request s)") (simp_all add: handleSimilaritySearch_def)

lemma handleSearch_issued:
  "requests (handleSearch s http) = [r] \<Longrightarrow>
   truthy (selectedCollection s) \<and> r = criteria_request s"
  by (cases "truthy (selectedCollection s)") (simp_all add: handleSearch_requests)

lemma handleSimilaritySearch_issued:
  "requests (handleSimilaritySearch s http) = [r] \<Longrightarrow>
   truthy (selectedCollection s) \<and> truthy (queryString s) \<and> r = similarity_request s"
  by (cases "truthy (selectedCollection s) \<and> truthy (queryString s)")
     (simp_all add: handleSimilaritySearch_requests)

lemma commit_handleSearch_frame:
  "selectedCollection (commit (updates (handleSearch s http)) t) = selectedCollection t
   \<and> year (commit (updates (handleSearch s http)) t) = year t
   \<and> startYear (commit (updates (handleSearch s http)) t) = startYear t
   \<and> endYear (commit (updates (handleSearch s http)) t) = endYear t
   \<and> queryString (commit (updates (handleSearch s http)) t) = queryString t"
proof (cases "truthy (selectedCollection s)")
  case False
  then show ?thesis
    by (simp add: handleSearch_falsy commit_Cons commit_Nil)
next
  case True
  show ?thesis
  proof (cases "http (criteria_request s)")
    case (Fulfilled d)
    with True show ?thesis
      by (simp add: handleSearch_Fulfilled commit_Cons commit_Nil)
  next
    case (Rejected e)
    with True show ?thesis
      by (simp add: handleSearch_Rejected commit_Cons commit_Nil)
  next
    case Pending
    with True show ?thesis
      by (simp add: handleSearch_Pending commit_Nil)
  qed
qed

lemma commit_handleSimilaritySearch_frame:
  "selectedCollection (commit (updates (handleSimilaritySearch s http)) t) = selectedCollection t
   \<and> year (commit (updates (handleSimilaritySearch s http)) t) = year t
   \<and> startYear (commit (updates (handleSimilaritySearch s http)) t) = startYear t
   \<and> endYear (commit (updates (handleSimilaritySearch s http)) t) = endYear t
   \<and> queryString (commit (updates (handleSimilaritySearch s http)) t) = queryString t"
proof (cases "truthy (selectedCollection s)")
  case False
  then show ?thesis
    by (simp add: handleSimilaritySearch_no_collection commit_Cons commit_Nil)
next
  case c: True
  show ?thesis
  proof (cases "truthy (queryString s)")
    case False
    with c show ?thesis
      by (simp add: handleSimilaritySearch_no_term commit_Cons commit_Nil)
  next
    case q: True
    show ?thesis
    proof (cases "http (similarity_request s)")
      case (Fulfilled d)
      with c q show ?thesis
        by (simp add: handleSimilaritySearch_Fulfilled commit_Cons commit_Nil)
    next
      case (Rejected e)
      with c q show ?thesis
        by (simp add: handleSimilaritySearch_Rejected commit_Cons commit_Nil)
    next
      case Pending
      with c q show ?thesis
        by (simp add: handleSimilaritySearch_Pending commit_Nil)
    qed
  qed
qed

lemma criteria_request_cong:
  "selectedCollection s' = selectedCollection s \<Longrightarrow> year s' = year s \<Longrightarrow>
   startYear s' = startYear s \<Longrightarrow> endYear s' = endYear s \<Longrightarrow>
   criteria_request s' = criteria_request s"
  by (simp add: criteria_request_def criteria_params_def)

lemma API_URL_nonempty: "API_URL env \<noteq> []"
  by (cases env) (simp_all add: API_URL_def truthy_def)

subsection \<open>Selecting a collection\<close>

text \<open>
  What \<open>handleCollectionChange\<close> requests, in general: with a date field filled in it
  requests nothing; with the three date fields empty it requests the articles of the
  collection of the state it was called on, without parameters, and nothing when that
  state has no collection.
\<close>

lemma handleCollectionChange_requests:
  "requests (handleCollectionChange s collection http) =
     (if year s = [] \<and> startYear s = [] \<and> endYear s = []
      then (if selectedCollection s = [] then []
            else [\<lparr>verb = GET,
                   url = ''/collections/'' @ selectedCollection s @ ''/articles'',
                   params = []\<rparr>])
      else [])"
  by (simp add: handleCollectionChange_def Let_def handleSearch_requests criteria_request_def
        criteria_params_def truthy_def)

text \<open>
  With \<open>CsAI\<close> selected and the date fields empty, picking \<open>CSCV\<close> requests the
  articles of \<open>CsAI\<close>.
\<close>

lemma handleCollectionChange_second_selection:
  "map url (requests (handleCollectionChange (initial_state\<lparr>selectedCollection := ''CsAI''\<rparr>)
       ''CSCV'' (\<lambda>r. Fulfilled (JArr []) :: (string, json) settled)))
     = [''/collections/CsAI/articles'']"
  by (simp add: handleCollectionChange_requests initial_state_def)

text \<open>
  C1. The claim: with the three date fields empty, selecting a collection issues one GET to
  \<^verbatim>\<open>/collections/{id}/articles\<close> for the newly selected id, without parameters. The code
  at the first selection after mount (no collection yet, the date fields empty, the user
  picks \<open>CSCV\<close>): no request is issued, and the setter calls are
  \<open>setSelectedCollection("CSCV")\<close> followed by \<open>setError\<close> with the "select a collection"
  message, because \<open>handleSearch\<close> reads the collection of the render in which the
  handler was created.
\<close>

theorem handleCollectionChange_first_selection:
  "requests (handleCollectionChange initial_state ''CSCV''
       (\<lambda>r. Fulfilled (JArr []) :: (string, json) settled)) = []
   \<and> updates (handleCollectionChange initial_state ''CSCV''
       (\<lambda>r. Fulfilled (JArr []) :: (string, json) settled))
     = [SetSelectedCollection ''CSCV'', SetError msg_select_collection]"
  by (simp add: handleCollectionChange_def Let_def handleSearch_def truthy_def
        initial_state_def)

subsection \<open>Request URLs\<close>

text \<open>
  C2 as stated fails: the URL that \<open>handleSearch\<close> gives to the HTTP client for the
  collection \<open>CSCV\<close> is \<^verbatim>\<open>/collections/CSCV/articles\<close>, which is not the configured
  base URL followed by that path, neither for a configured base nor for the fallback.
\<close>

theorem search_url_not_based_counterexample:
  "map url (requests (handleSearch (initial_state\<lparr>selectedCollection := ''CSCV''\<rparr>)
       (\<lambda>r. Pending :: (string, json) settled)))
     = [''/collections/CSCV/articles'']
   \<and> ''/collections/CSCV/articles''
     \<noteq> API_URL (Some ''https://api.example.org'') @ ''/collections/CSCV/articles''
   \<and> ''/collections/CSCV/articles'' \<noteq> API_URL None @ ''/collections/CSCV/articles''"
  by (simp add: handleSearch_requests criteria_request_def criteria_params_def truthy_def
        initial_state_def API_URL_def)

text \<open>
  C2, amended. The two search operations give the HTTP client the relative path of the
  operation alone (\<^verbatim>\<open>/collections/{id}/articles\<close>, \<^verbatim>\<open>/collections/{id}/search\<close>),
  whatever the configured base URL is. The base URL \<open>API_URL\<close> is the environment setting,
  or \<^verbatim>\<open>http://localhost:8000\<close> when the setting is undefined or empty, and it is
  \<open>getData\<close> that requests \<open>API_URL\<close> followed by \<^verbatim>\<open>/api/data\<close>.
\<close>

theorem search_urls_relative:
  "map url (requests (handleSearch s http)) =
     (if selectedCollection s = [] then []
      else [''/collections/'' @ selectedCollection s @ ''/articles''])
   \<and> map url (requests (handleSimilaritySearch s http)) =
     (if selectedCollection s = [] then []
      else if queryString s = [] then []
      else [''/collections/'' @ selectedCollection s @ ''/search''])
   \<and> url (fst (getData env fetch)) = API_URL env @ ''/api/data''
   \<and> API_URL env =
     (case env of None \<Rightarrow> ''http://localhost:8000''
      | Some v \<Rightarrow> if v = [] then ''http://localhost:8000'' else v)"
  by (simp add: handleSearch_requests handleSimilaritySearch_requests criteria_request_def
        similarity_request_def getData_def Let_def API_URL_def truthy_def
        split: option.split)

subsection \<open>Criteria search\<close>

text \<open>
  C3. The parameter object of the criteria search holds exactly the fields among
  \<open>year\<close>, \<open>start_year\<close>, \<open>end_year\<close> whose state slot is not empty, each with the value
  of the slot as it is, and the request of the operation (issued when a collection is
  selected) is a GET to \<^verbatim>\<open>/collections/{collectionId}/articles\<close> with that object.
\<close>

theorem handleSearch_request:
  "criteria_params s =
     filter (\<lambda>(k, v). v \<noteq> [])
       [(''year'', year s), (''start_year'', startYear s), (''end_year'', endYear s)]
   \<and> requests (handleSearch s http) =
     (if selectedCollection s = [] then []
      else [\<lparr>verb = GET,
             url = ''/collections/'' @ selectedCollection s @ ''/articles'',
             params = criteria_params s\<rparr>])"
  by (simp add: handleSearch_requests criteria_request_def criteria_params_filter truthy_def)

theorem handleSearch_request_witness:
  "criteria_params sample_state = [(''year'', ''2020''), (''end_year'', ''2022'')]
   \<and> requests (handleSearch sample_state always_rejected) =
     [\<lparr>verb = GET, url = ''/collections/CsAI/articles'',
       params = [(''year'', ''2020''), (''end_year'', ''2022'')]\<rparr>]"
  using handleSearch_request [of sample_state always_rejected]
  by (simp add: sample_state_def)

text \<open>
  C9. Building the parameters is a function of the view state that the search does not
  change: two criteria searches on the same state build the same parameters whatever the
  server answers, and a second search run on the state that the first one leaves issues
  the same request, with the same parameters.
\<close>

theorem criteria_search_repeatable:
  "map params (requests (handleSearch s http1)) = map params (requests (handleSearch s http2))
   \<and> requests (handleSearch (commit (updates (handleSearch s http1)) s) http2)
     = requests (handleSearch s http1)
   \<and> criteria_params (commit (updates (handleSearch s http1)) s) = criteria_params s"
proof -
  let ?s' = "commit (updates (handleSearch s http1)) s"
  have r: "criteria_request ?s' = criteria_request s"
    by (rule criteria_request_cong) (simp_all add: commit_handleSearch_frame)
  have c: "selectedCollection ?s' = selectedCollection s"
    by (simp add: commit_handleSearch_frame)
  have 0: "requests (handleSearch s http1) = requests (handleSearch s http2)"
    by (simp add: handleSearch_requests)
  have 1: "requests (handleSearch ?s' http2) = requests (handleSearch s http1)"
    by (simp add: handleSearch_requests r c)
  have 2: "criteria_params ?s' = criteria_params s"
    using r by (simp add: criteria_request_def)
  from 0 1 2 show ?thesis by simp
qed

subsection \<open>Similarity search\<close>



subsection \<open>Outcome of the HTTP call\<close>

text \<open>
  C4. When the request of a search is rejected, the operation makes one setter call, which
  stores the fixed failure text of that operation, and passes the error to the console
  only: whatever the state is when the call is applied, the result list stays as it was,
  and the error message is the fixed text, the same for every underlying error. The texts
  of the two operations differ.
\<close>

theorem search_rejected:
  "(requests (handleSearch s http) = [r] \<and> http r = Rejected e \<longrightarrow>
      updates (handleSearch s http) = [SetError msg_articles_failed]
      \<and> logged (handleSearch s http) = [e]
      \<and> articles (commit (updates (handleSearch s http)) t) = articles t
      \<and> error (commit (updates (handleSearch s http)) t) = msg_articles_failed)
   \<and> (requests (handleSimilaritySearch s http) = [r] \<and> http r = Rejected e \<longrightarrow>
      updates (handleSimilaritySearch s http) = [SetError msg_similarity_failed]
      \<and> logged (handleSimilaritySearch s http) = [e]
      \<and> articles (commit (updates (handleSimilaritySearch s http)) t) = articles t
      \<and> error (commit (updates (handleSimilaritySearch s http)) t) = msg_similarity_failed)
   \<and> msg_articles_failed \<noteq> msg_similarity_failed"
proof (intro conjI impI)
  assume a: "requests (handleSearch s http) = [r] \<and> http r = Rejected e"
  then have "truthy (selectedCollection s)" and "http (criteria_request s) = Rejected e"
    using handleSearch_issued [of s http r] by simp_all
  then have h: "handleSearch s http =
     \<lparr>requests = [criteria_request s], updates = [SetError msg_articles_failed],
      logged = [e]\<rparr>"
    by (rule handleSearch_Rejected)
  show "updates (handleSearch s http) = [SetError msg_articles_failed]"
    by (simp add: h)
  show "logged (handleSearch s http) = [e]"
    by (simp add: h)
  show "articles (commit (updates (handleSearch s http)) t) = articles t"
    by (simp add: h commit_Cons commit_Nil)
  show "error (commit (updates (handleSearch s http)) t) = msg_articles_failed"
    by (simp add: h commit_Cons commit_Nil)
next
  assume a: "requests (handleSimilaritySearch s http) = [r] \<and> http r = Rejected e"
  then have "truthy (selectedCollection s)" and "truthy (queryString s)"
    and "http (similarity_request s) = Rejected e"
    using handleSimilaritySearch_issued [of s http r] by simp_all
  then have h: "handleSimilaritySearch s http =
     \<lparr>requests = [similarity_request s], updates = [SetError msg_similarity_failed],
      logged = [e]\<rparr>"
    by (rule handleSimilaritySearch_Rejected)
  show "updates (handleSimilaritySearch s http) = [SetError msg_similarity_failed]"
    by (simp add: h)
  show "logged (handleSimilaritySearch s http) = [e]"
    by (simp add: h)
  show "articles (commit (updates (handleSimilaritySearch s http)) t) = articles t"
    by (simp add: h commit_Cons commit_Nil)
  show "error (commit (updates (handleSimilaritySearch s http)) t) = msg_similarity_failed"
    by (simp add: h commit_Cons commit_Nil)
next
  show "msg_articles_failed \<noteq> msg_similarity_failed" by (rule messages_distinct)
qed

theorem search_rejected_witness:
  "requests (handleSearch sample_state always_rejected) = [sample_criteria_request]
   \<and> always_rejected sample_criteria_request = Rejected ''Network Error''
   \<and> updates (handleSearch sample_state always_rejected) = [SetError msg_articles_failed]
   \<and> logged (handleSearch sample_state always_rejected) = [''Network Error'']
   \<and> articles (commit (updates (handleSearch sample_state always_rejected)) sample_state)
     = JArr [JObj [(''id'', JNum 7), (''title'', JStr ''Old'')]]
   \<and> error (commit (updates (handleSearch sample_state always_rejected)) sample_state)
     = msg_articles_failed
   \<and> requests (handleSimilaritySearch sample_state always_rejected)
     = [sample_similarity_request]
   \<and> always_rejected sample_similarity_request = Rejected ''Network Error''
   \<and> updates (handleSimilaritySearch sample_state always_rejected)
     = [SetError msg_similarity_failed]
   \<and> logged (handleSimilaritySearch sample_state always_rejected) = [''Network Error'']
   \<and> articles (commit (updates (handleSimilaritySearch sample_state always_rejected))
        sample_state)
     = JArr [JObj [(''id'', JNum 7), (''title'', JStr ''Old'')]]
   \<and> error (commit (updates (handleSimilaritySearch sample_state always_rejected))
        sample_state)
     = msg_similarity_failed"
  using search_rejected
          [of sample_state always_rejected sample_criteria_request
              "''Network Error''" sample_state]
        search_rejected
          [of sample_state always_rejected sample_similarity_request
              "''Network Error''" sample_state]
  by (simp add: handleSearch_requests handleSimilaritySearch_requests criteria_request_def
        criteria_params_def similarity_request_def truthy_def sample_state_def
        sample_criteria_request_def sample_similarity_request_def always_rejected_def
        commit_Cons commit_Nil)

text \<open>
  C7. When the request of a search is fulfilled, then, whatever the state is when the
  setter calls are applied, the result list becomes the response body, with nothing kept
  of the list before, and the error message becomes empty.
\<close>

theorem search_fulfilled:
  "(requests (handleSearch s http) = [r] \<and> http r = Fulfilled v \<longrightarrow>
      articles (commit (updates (handleSearch s http)) t) = v
      \<and> error (commit (updates (handleSearch s http)) t) = [])
   \<and> (requests (handleSimilaritySearch s http) = [r] \<and> http r = Fulfilled v \<longrightarrow>
      articles (commit (updates (handleSimilaritySearch s http)) t) = v
      \<and> error (commit (updates (handleSimilaritySearch s http)) t) = [])"
proof (intro conjI impI)
  assume a: "requests (handleSearch s http) = [r] \<and> http r = Fulfilled v"
  then have "truthy (selectedCollection s)" and "http (criteria_request s) = Fulfilled v"
    using handleSearch_issued [of s http r] by simp_all
  then have h: "handleSearch s http =
     \<lparr>requests = [criteria_request s], updates = [SetArticles v, SetError []], logged = []\<rparr>"
    by (rule handleSearch_Fulfilled)
  show "articles (commit (updates (handleSearch s http)) t) = v"
    by (simp add: h commit_Cons commit_Nil)
  show "error (commit (updates (handleSearch s http)) t) = []"
    by (simp add: h commit_Cons commit_Nil)
next
  assume a: "requests (handleSimilaritySearch s http) = [r] \<and> http r = Fulfilled v"
  then have "truthy (selectedCollection s)" and "truthy (queryString s)"
    and "http (similarity_request s) = Fulfilled v"
    using handleSimilaritySearch_issued [of s http r] by simp_all
  then have h: "handleSimilaritySearch s http =
     \<lparr>requests = [similarity_request s], updates = [SetArticles v, SetError []],
      logged = []\<rparr>"
    by (rule handleSimilaritySearch_Fulfilled)
  show "articles (commit (updates (handleSimilaritySearch s http)) t) = v"
    by (simp add: h commit_Cons commit_Nil)
  show "error (commit (updates (handleSimilaritySearch s http)) t) = []"
    by (simp add: h commit_Cons commit_Nil)
qed

theorem search_fulfilled_witness:
  "requests (handleSearch sample_state (always_fulfilled one_article))
     = [sample_criteria_request]
   \<and> always_fulfilled one_article sample_criteria_request = Fulfilled one_article
   \<and> articles (commit (updates (handleSearch sample_state (always_fulfilled one_article)))
        (sample_state\<lparr>error := msg_articles_failed\<rparr>))
     = one_article
   \<and> error (commit (updates (handleSearch sample_state (always_fulfilled one_article)))
        (sample_state\<lparr>error := msg_articles_failed\<rparr>))
     = []
   \<and> requests (handleSimilaritySearch sample_state (always_fulfilled one_article))
     = [sample_similarity_request]
   \<and> always_fulfilled one_article sample_similarity_request = Fulfilled one_article
   \<and> articles (commit
        (updates (handleSimilaritySearch sample_state (always_fulfilled one_article)))
        (sample_state\<lparr>error := msg_articles_failed\<rparr>))
     = one_article
   \<and> error (commit
        (updates (handleSimilaritySearch sample_state (always_fulfilled one_article)))
        (sample_state\<lparr>error := msg_articles_failed\<rparr>))
     = []"
  using search_fulfilled
          [of sample_state "always_fulfilled one_article" sample_criteria_request
              one_article "sample_state\<lparr>error := msg_articles_failed\<rparr>"]
        search_fulfilled
          [of sample_state "always_fulfilled one_article" sample_similarity_request
              one_article "sample_state\<lparr>error := msg_articles_failed\<rparr>"]
  by (simp add: handleSearch_requests handleSimilaritySearch_requests criteria_request_def
        criteria_params_def similarity_request_def truthy_def sample_state_def
        sample_criteria_request_def sample_similarity_request_def always_fulfilled_def
        commit_Cons commit_Nil)

text \<open>
  C10. On a fulfilled request both operations store the response body into the result list
  as it is: whatever the body \<open>v\<close> is (a value of any type, of which no shape is
  required) and whatever the state is when the setter calls are applied, the result list
  of the state after them is exactly \<open>v\<close>. The setter calls are \<open>setArticles(v)\<close>
  followed by \<open>setError("")\<close> and nothing else, and nothing is logged.
\<close>

theorem search_stores_body_as_is:
  "(requests (handleSearch s http) = [r] \<and> http r = Fulfilled v \<longrightarrow>
      articles (commit (updates (handleSearch s http)) t) = v
      \<and> updates (handleSearch s http) = [SetArticles v, SetError []]
      \<and> logged (handleSearch s http) = [])
   \<and> (requests (handleSimilaritySearch s http) = [r] \<and> http r = Fulfilled v \<longrightarrow>
      articles (commit (updates (handleSimilaritySearch s http)) t) = v
      \<and> updates (handleSimilaritySearch s http) = [SetArticles v, SetError []]
      \<and> logged (handleSimilaritySearch s http) = [])"
proof (intro conjI impI)
  assume a: "requests (handleSearch s http) = [r] \<and> http r = Fulfilled v"
  then have "truthy (selectedCollection s)" and "http (criteria_request s) = Fulfilled v"
    using handleSearch_issued [of s http r] by simp_all
  then have h: "handleSearch s http =
     \<lparr>requests = [criteria_request s], updates = [SetArticles v, SetError []], logged = []\<rparr>"
    by (rule handleSearch_Fulfilled)
  show "articles (commit (updates (handleSearch s http)) t) = v"
    by (simp add: h commit_Cons commit_Nil)
  show "updates (handleSearch s http) = [SetArticles v, SetError []]"
    by (simp add: h)
  show "logged (handleSearch s http) = []"
    by (simp add: h)
next
  assume a: "requests (handleSimilaritySearch s http) = [r] \<and> http r = Fulfilled v"
  then have "truthy (selectedCollection s)" and "truthy (queryString s)"
    and "http (similarity_request s) = Fulfilled v"
    using handleSimilaritySearch_issued [of s http r] by simp_all
  then have h: "handleSimilaritySearch s http =
     \<lparr>requests = [similarity_request s], updates = [SetArticles v, SetError []],
      logged = []\<rparr>"
    by (rule handleSimilaritySearch_Fulfilled)
  show "articles (commit (updates (handleSimilaritySearch s http)) t) = v"
    by (simp add: h commit_Cons commit_Nil)
  show "updates (handleSimilaritySearch s http) = [SetArticles v, SetError []]"
    by (simp add: h)
  show "logged (handleSimilaritySearch s http) = []"
    by (simp add: h)
qed

theorem search_stores_body_as_is_witness:
  "requests (handleSearch sample_state (always_fulfilled (JStr ''<html>'')))
     = [sample_criteria_request]
   \<and> always_fulfilled (JStr ''<html>'') sample_criteria_request = Fulfilled (JStr ''<html>'')
   \<and> articles (commit (updates (handleSearch sample_state
        (always_fulfilled (JStr ''<html>'')))) sample_state)
     = JStr ''<html>''
   \<and> updates (handleSearch sample_state (always_fulfilled (JStr ''<html>'')))
     = [SetArticles (JStr ''<html>''), SetError []]
   \<and> logged (handleSearch sample_state (always_fulfilled (JStr ''<html>''))) = []
   \<and> requests (handleSimilaritySearch sample_state
        (always_fulfilled (JArr [JObj [(''name'', JNull)]])))
     = [sample_similarity_request]
   \<and> always_fulfilled (JArr [JObj [(''name'', JNull)]]) sample_similarity_request
     = Fulfilled (JArr [JObj [(''name'', JNull)]])
   \<and> articles (commit (updates (handleSimilaritySearch sample_state
        (always_fulfilled (JArr [JObj [(''name'', JNull)]])))) sample_state)
     = JArr [JObj [(''name'', JNull)]]
   \<and> updates (handleSimilaritySearch sample_state
        (always_fulfilled (JArr [JObj [(''name'', JNull)]])))
     = [SetArticles (JArr [JObj [(''name'', JNull)]]), SetError []]
   \<and> logged (handleSimilaritySearch sample_state
        (always_fulfilled (JArr [JObj [(''name'', JNull)]]))) = []"
  using search_stores_body_as_is
          [of sample_state "always_fulfilled (JStr ''<html>'')" sample_criteria_request
              "JStr ''<html>''" sample_state]
        search_stores_body_as_is
          [of sample_state "always_fulfilled (JArr [JObj [(''name'', JNull)]])"
              sample_similarity_request "JArr [JObj [(''name'', JNull)]]" sample_state]
  by (simp add: handleSearch_requests handleSimilaritySearch_requests criteria_request_def
        criteria_params_def similarity_request_def truthy_def sample_state_def
        sample_criteria_request_def sample_similarity_request_def always_fulfilled_def
        commit_Cons commit_Nil)

subsection \<open>Frame\<close>

text \<open>
  C8. Neither search changes the selected collection: whatever the outcome (a failed
  precondition, a fulfilled, rejected or unsettled request) and whatever the state is when
  the setter calls of the operation are applied, the selection after them is the selection
  before them.
\<close>

theorem search_keeps_selection:
  "selectedCollection (commit (updates (handleSearch s http)) t) = selectedCollection t
   \<and> selectedCollection (commit (updates (handleSimilaritySearch s http)) t)
       = selectedCollection t"
  by (simp add: commit_handleSearch_frame commit_handleSimilaritySearch_frame)

subsection \<open>Criteria search without a collection\<close>

text \<open>
  C6. Criteria search with an empty collection identifier: no request is issued, the only
  setter call is the one that stores the fixed "select a collection" message, and so,
  whatever the state is when the call is applied, the error message becomes that text and
  the result list stays as it was.
\<close>

theorem handleSearch_no_collection:
  assumes "selectedCollection s = []"
  shows "requests (handleSearch s http) = []
       \<and> error (commit (updates (handleSearch s http)) t) = msg_select_collection
       \<and> articles (commit (updates (handleSearch s http)) t) = articles t"
  using assms by (simp add: handleSearch_def truthy_def commit_Cons commit_Nil)

theorem handleSearch_no_collection_witness:
  "selectedCollection (initial_state\<lparr>year := ''2020''\<rparr>) = []
   \<and> requests (handleSearch (initial_state\<lparr>year := ''2020''\<rparr>)
        (\<lambda>r. Fulfilled (JArr [JNull]) :: (string, json) settled)) = []
   \<and> error (commit (updates (handleSearch (initial_state\<lparr>year := ''2020''\<rparr>)
        (\<lambda>r. Fulfilled (JArr [JNull]) :: (string, json) settled)))
        (initial_state\<lparr>articles := JArr [JStr ''old'']\<rparr>)) = msg_select_collection
   \<and> articles (commit (updates (handleSearch (initial_state\<lparr>year := ''2020''\<rparr>)
        (\<lambda>r. Fulfilled (JArr [JNull]) :: (string, json) settled)))
        (initial_state\<lparr>articles := JArr [JStr ''old'']\<rparr>)) = JArr [JStr ''old'']"
  using handleSearch_no_collection
    [of "initial_state\<lparr>year := ''2020''\<rparr>"
        "\<lambda>r. Fulfilled (JArr [JNull]) :: (string, json) settled"
        "initial_state\<lparr>articles := JArr [JStr ''old'']\<rparr>"]
  by (simp add: initial_state_def)

end
